theory Spec2Isabelle
  imports Complex_Main
begin

section \<open>Regenerative rocket engine notebook: the calculation cells\<close>

text \<open>
  The program is the notebook RegenerativeRocketEngineDesign-ThermodynamicsProject.ipynb:
  a straight-line calculation spread over code cells 5, 7, 9, 10, 12, 14 and 16 that share
  the notebook's global variables.

  Python floats are modelled by the real numbers: every arithmetic operation is the exact
  one, rounding is not modelled. Python's exceptions are values of type \<open>error\<close>; a cell
  that raises stops the run (the notebook is run top to bottom).
\<close>

subsection \<open>Errors and Python arithmetic\<close>

datatype error = ValueError | ZeroDivisionError

definition and_then :: "error + 'a \<Rightarrow> ('a \<Rightarrow> error + 'b) \<Rightarrow> error + 'b" where
  "and_then m f = (case m of Inl e \<Rightarrow> Inl e | Inr x \<Rightarrow> f x)"

definition raises :: "error + 'a \<Rightarrow> bool" where
  "raises m = (case m of Inl e \<Rightarrow> True | Inr x \<Rightarrow> False)"

text \<open>Python's \<open>a / b\<close> on floats raises ZeroDivisionError when \<open>b\<close> is zero.\<close>

definition py_div :: "real \<Rightarrow> real \<Rightarrow> error + real" where
  "py_div a b = (if b = 0 then Inl ZeroDivisionError else Inr (a / b))"

text \<open>
  A Python number is a float or a complex: \<open>x ** 0.5\<close> on a negative float does not raise,
  it returns a complex number (the principal square root, on the imaginary axis).
\<close>

datatype pynum = PyFloat real | PyComplex complex

definition pow_half :: "real \<Rightarrow> pynum" where
  "pow_half x = (if x < 0 then PyComplex (Complex 0 (sqrt (- x))) else PyFloat (sqrt x))"

fun num_div :: "pynum \<Rightarrow> real \<Rightarrow> pynum" where
  "num_div (PyFloat v) d = PyFloat (v / d)"
| "num_div (PyComplex c) d = PyComplex (c / complex_of_real d)"

fun num_mult :: "real \<Rightarrow> pynum \<Rightarrow> pynum" where
  "num_mult m (PyFloat v) = PyFloat (m * v)"
| "num_mult m (PyComplex c) = PyComplex (complex_of_real m * c)"

fun as_complex :: "pynum \<Rightarrow> complex" where
  "as_complex (PyFloat v) = complex_of_real v"
| "as_complex (PyComplex c) = c"

subsection \<open>The property lookup\<close>

text \<open>
  \<open>PropsSI(output, name1, value1, name2, value2, fluid)\<close> is CoolProp's function, not code
  of the notebook: it is a parameter of every cell that calls it. It returns a float or
  raises ValueError.
\<close>

type_synonym props = "string \<Rightarrow> string \<Rightarrow> real \<Rightarrow> string \<Rightarrow> real \<Rightarrow> string \<Rightarrow> error + real"

definition answers_all :: "props \<Rightarrow> bool" where
  "answers_all P = (\<forall>out n1 v1 n2 v2 fl. \<not> raises (P out n1 v1 n2 v2 fl))"

text \<open>
  A lookup that asks for one of the two quantities it was given returns the given value
  (CoolProp stores the inputs of the state it solves for).
\<close>

definition echoes_inputs :: "props \<Rightarrow> bool" where
  "echoes_inputs P =
     (\<forall>out n1 v1 n2 v2 fl r. P out n1 v1 n2 v2 fl = Inr r \<longrightarrow>
        (out = n2 \<longrightarrow> r = v2) \<and> (out = n1 \<and> out \<noteq> n2 \<longrightarrow> r = v1))"

subsection \<open>The notebook's named literals\<close>

text \<open>
  The names the notebook assigns once, to a literal (cells 5, 7, 9 and 12). The cells are
  modelled for any values of them; \<open>notebook\<close> holds the literals of the source. The numbers
  the source writes inside its formulas (3, 0.05, 0.5, 1000, 0.95, 101325, 973 * 0.8, 343)
  stay where they are.
\<close>

record params =
  mDot_E :: real
  mDot_O2 :: real
  mm_E :: real
  mm_O2 :: real
  Q_combustion :: real
  p3_Pa :: real
  x3 :: real
  p1_Pa :: real

definition notebook :: params where
  "notebook = \<lparr>mDot_E = 0.125, mDot_O2 = 0.125, mm_E = 0.046068, mm_O2 = 0.032,
     Q_combustion = 1350, p3_Pa = 1200000, x3 = 0, p1_Pa = 300000\<rparr>"

definition fluid :: string where
  "fluid = ''ethanol''"

definition oxidizer :: string where
  "oxidizer = ''oxygen''"

subsection \<open>The global variables after each cell\<close>

record flows =
  mDot_Tot :: real

record heat = flows +
  Q_out :: real
  Q_inWall :: real
  Q_inWall_J :: real

record pre_hx = heat +
  h3_JperKg :: real
  t3_K :: real
  h2_JperKg :: real
  s2_JperKgK :: real
  t2_K :: real

record globals = pre_hx +
  t1_K :: real
  h1_JperKg :: real
  work_EPump :: real
  h2_O2_JperKg :: real
  s2_O2_JperKgK :: real
  h1_O2_JperKg :: real
  T1_O2_K :: real
  work_OPump :: real

record thrust =
  h1_gas :: real
  h2_gas :: real
  h3_gas :: real
  V :: pynum
  M :: pynum
  Thrust_N :: pynum

subsection \<open>Cells 5 and 7: flow rates and combustion heat\<close>

definition cell5 :: "params \<Rightarrow> flows" where
  "cell5 p = \<lparr>mDot_Tot = mDot_E p + mDot_O2 p\<rparr>"

definition cell7 :: "params \<Rightarrow> flows \<Rightarrow> error + heat" where
  "cell7 p g =
     and_then (py_div (mDot_O2 p) (mm_O2 p)) (\<lambda>n_O2.
     let q_out = (n_O2 / 3) * Q_combustion p;
         q_inWall = q_out * 0.05;
         q_inWall_J = q_inWall * 1000
     in Inr (flows.extend g (heat.fields q_out q_inWall q_inWall_J)))"

subsection \<open>Cells 9 and 10: injector state and pre-heat-exchanger state\<close>

text \<open>Cell 9 only prints two lookups; either can raise.\<close>

definition cell9 :: "props \<Rightarrow> params \<Rightarrow> error + unit" where
  "cell9 P p =
     and_then (P ''H'' ''P'' (p3_Pa p) ''Q'' (x3 p) fluid) (\<lambda>_.
     and_then (P ''T'' ''P'' 300000 ''H'' 0 ''ethanol'') (\<lambda>_.
     Inr ()))"

text \<open>
  The steady-state energy balance \<open>h3 - Q / mDot\<close>, the expression both scenario cells use
  for the state 2 enthalpy.
\<close>

definition state2_enthalpy :: "real \<Rightarrow> real \<Rightarrow> real \<Rightarrow> error + real" where
  "state2_enthalpy h3 Q m = and_then (py_div Q m) (\<lambda>q. Inr (h3 - q))"

definition cell10 :: "props \<Rightarrow> params \<Rightarrow> heat \<Rightarrow> error + pre_hx" where
  "cell10 P p g =
     and_then (P ''Hmass'' ''P'' (p3_Pa p) ''Q'' (x3 p) fluid) (\<lambda>h3.
     and_then (P ''T'' ''P'' (p3_Pa p) ''Q'' (x3 p) fluid) (\<lambda>t3.
     and_then (state2_enthalpy h3 (Q_inWall_J g) (mDot_E p)) (\<lambda>h2.
     and_then (P ''S'' ''P'' (p3_Pa p) ''Hmass'' h2 fluid) (\<lambda>s2.
     and_then (P ''T'' ''P'' (p3_Pa p) ''H'' h2 fluid) (\<lambda>t2.
     Inr (heat.extend g (pre_hx.fields h3 t3 h2 s2 t2)))))))"

subsection \<open>Cell 12: tank states and pump work\<close>

definition cell12 :: "props \<Rightarrow> params \<Rightarrow> pre_hx \<Rightarrow> error + globals" where
  "cell12 P p g =
     and_then (P ''T'' ''P'' (p1_Pa p) ''S'' (s2_JperKgK g) fluid) (\<lambda>t1.
     and_then (P ''H'' ''P'' (p1_Pa p) ''S'' (s2_JperKgK g) fluid) (\<lambda>h1.
     and_then (py_div 1 (mDot_E p)) (\<lambda>inv_E.
     let w_E = inv_E * (h2_JperKg g - h1) in
     and_then (P ''H'' ''P'' (p3_Pa p) ''Q'' 0 oxidizer) (\<lambda>h2_O2.
     and_then (P ''S'' ''P'' (p3_Pa p) ''Q'' 0 oxidizer) (\<lambda>s2_O2.
     and_then (P ''H'' ''P'' (p1_Pa p) ''S'' s2_O2 oxidizer) (\<lambda>h1_O2.
     and_then (P ''T'' ''P'' (p1_Pa p) ''S'' s2_O2 oxidizer) (\<lambda>t1_O2.
     and_then (py_div 1 (mDot_O2 p)) (\<lambda>inv_O2.
     let w_O = inv_O2 * (h2_O2 - h1_O2) in
     Inr (pre_hx.extend g
            (globals.fields t1 h1 w_E h2_O2 s2_O2 h1_O2 t1_O2 w_O))))))))))"

subsection \<open>Cell 14: the improved scenario\<close>

definition cell14 :: "props \<Rightarrow> params \<Rightarrow> globals \<Rightarrow> error + globals" where
  "cell14 P p g =
     (let q_inWall = Q_out g * 0.5;
          q_inWall_J = q_inWall * 1000
      in
      and_then (state2_enthalpy (h3_JperKg g) (q_inWall_J * 0.05) (mDot_E p)) (\<lambda>h2.
      and_then (P ''S'' ''P'' (p3_Pa p) ''Hmass'' h2 fluid) (\<lambda>s2.
      and_then (P ''T'' ''P'' (p3_Pa p) ''H'' h2 fluid) (\<lambda>t2.
      and_then (P ''T'' ''P'' (p1_Pa p) ''S'' s2 fluid) (\<lambda>t1.
      and_then (P ''H'' ''P'' (p1_Pa p) ''S'' s2 fluid) (\<lambda>h1.
      and_then (py_div 1 (mDot_E p)) (\<lambda>inv_E.
      Inr (g\<lparr>Q_inWall := q_inWall, Q_inWall_J := q_inWall_J, h2_JperKg := h2,
              s2_JperKgK := s2, t2_K := t2, t1_K := t1, h1_JperKg := h1,
              work_EPump := inv_E * (h2 - h1)\<rparr>))))))))"

subsection \<open>Cell 16: thrust\<close>

definition cell16 :: "props \<Rightarrow> params \<Rightarrow> globals \<Rightarrow> error + thrust" where
  "cell16 P p g =
     and_then (py_div (h3_JperKg g * mDot_E p + h2_O2_JperKg g * mDot_O2 p) (mDot_Tot g)) (\<lambda>h1.
     and_then (py_div (Q_out g * 1000 * 0.95) (mDot_Tot g)) (\<lambda>dh.
     let h2 = h1 + dh in
     and_then (P ''T'' ''P'' 101325 ''T'' (973 * 0.8) ''CO2'') (\<lambda>h3.
     let v = pow_half (2 * (h2 - h3)) in
     Inr \<lparr>h1_gas = h1, h2_gas = h2, h3_gas = h3, V = v, M = num_div v 343,
          Thrust_N = num_mult (mDot_Tot g) v\<rparr>)))"

subsection \<open>Runs of the notebook\<close>

definition run_baseline :: "props \<Rightarrow> params \<Rightarrow> error + globals" where
  "run_baseline P p =
     and_then (cell7 p (cell5 p)) (\<lambda>g7.
     and_then (cell9 P p) (\<lambda>_.
     and_then (cell10 P p g7) (\<lambda>g10.
     cell12 P p g10)))"

definition run_improved :: "props \<Rightarrow> params \<Rightarrow> error + globals" where
  "run_improved P p = and_then (run_baseline P p) (cell14 P p)"

definition thrust_baseline :: "props \<Rightarrow> params \<Rightarrow> error + thrust" where
  "thrust_baseline P p = and_then (run_baseline P p) (cell16 P p)"

definition thrust_improved :: "props \<Rightarrow> params \<Rightarrow> error + thrust" where
  "thrust_improved P p = and_then (run_improved P p) (cell16 P p)"

subsection \<open>Property tables used to run the cells on concrete inputs\<close>

text \<open>
  A small synthetic table. A quantity asked for at a given value of itself is that value.
  Saturated liquid is at 500 K, 250 kJ/kg and 5000 J/(kg K); at a given entropy the
  temperature is \<open>S / 10\<close> and the enthalpy \<open>250 S - 1001000\<close>; at a given enthalpy the
  entropy is \<open>(H + 1000000) / 250\<close> and the temperature \<open>(H + 1000000) / 2500\<close>.
\<close>

definition toy_PropsSI :: props where
  "toy_PropsSI out n1 v1 n2 v2 fl =
     (if out = n2 then Inr v2
      else if out = n1 then Inr v1
      else if n2 = ''Q'' then
        (if out = ''T'' then Inr 500 else if out = ''S'' then Inr 5000 else Inr 250000)
      else if n2 = ''S'' then
        (if out = ''T'' then Inr (v2 / 10) else Inr (250 * v2 - 1001000))
      else (if out = ''S'' then Inr ((v2 + 1000000) / 250) else Inr ((v2 + 1000000) / 2500)))"

text \<open>
  A table with a low enthalpy reference: saturated-liquid enthalpy chosen so that the
  pre-expansion exhaust enthalpy of cell 16 is 2 J/kg below the value returned for the
  exhaust.
\<close>

definition cold_PropsSI :: props where
  "cold_PropsSI out n1 v1 n2 v2 fl =
     (if n2 = ''Q'' \<and> (out = ''H'' \<or> out = ''Hmass'') then Inr (- 6678911.1)
      else toy_PropsSI out n1 v1 n2 v2 fl)"

definition failing_PropsSI :: props where
  "failing_PropsSI out n1 v1 n2 v2 fl = Inl ValueError"

text \<open>The global variables the synthetic table gives after cell 12 and after cell 14.\<close>

definition toy_globals :: globals where
  "toy_globals = \<lparr>mDot_Tot = 0.25, Q_out = 1757.8125, Q_inWall = 87.890625,
     Q_inWall_J = 87890.625, h3_JperKg = 250000, t3_K = 500, h2_JperKg = - 453125,
     s2_JperKgK = 2187.5, t2_K = 218.75, t1_K = 218.75, h1_JperKg = - 454125,
     work_EPump = 8000, h2_O2_JperKg = 250000, s2_O2_JperKgK = 5000,
     h1_O2_JperKg = 249000, T1_O2_K = 500, work_OPump = 8000\<rparr>"

definition toy_globals_improved :: globals where
  "toy_globals_improved = \<lparr>mDot_Tot = 0.25, Q_out = 1757.8125, Q_inWall = 878.90625,
     Q_inWall_J = 878906.25, h3_JperKg = 250000, t3_K = 500, h2_JperKg = - 101562.5,
     s2_JperKgK = 3593.75, t2_K = 359.375, t1_K = 359.375, h1_JperKg = - 102562.5,
     work_EPump = 8000, h2_O2_JperKg = 250000, s2_O2_JperKgK = 5000,
     h1_O2_JperKg = 249000, T1_O2_K = 500, work_OPump = 8000\<rparr>"


text \<open>The thrust record cell 16 gives after cell 14, for the two tables.\<close>

definition toy_thrust :: thrust where
  "toy_thrust = \<lparr>h1_gas = 250000, h2_gas = 6929687.5, h3_gas = 778.4,
     V = PyFloat (sqrt 13857818.2), M = PyFloat (sqrt 13857818.2 / 343),
     Thrust_N = PyFloat (0.25 * sqrt 13857818.2)\<rparr>"

definition cold_thrust :: thrust where
  "cold_thrust = \<lparr>h1_gas = - 6678911.1, h2_gas = 776.4, h3_gas = 778.4,
     V = PyComplex (Complex 0 2), M = PyComplex (Complex 0 (2 / 343)),
     Thrust_N = PyComplex (Complex 0 0.5)\<rparr>"

section \<open>Basic facts\<close>

lemma and_then_Inl [simp]: "and_then (Inl e) f = Inl e"
  by (simp add: and_then_def)

lemma and_then_Inr [simp]: "and_then (Inr x) f = f x"
  by (simp add: and_then_def)

lemma and_then_eq_Inr:
  "and_then m f = Inr y \<longleftrightarrow> (\<exists>x. m = Inr x \<and> f x = Inr y)"
  by (cases m) simp_all

lemma py_div_eq_Inr: "py_div a b = Inr q \<longleftrightarrow> b \<noteq> 0 \<and> q = a / b"
  by (auto simp: py_div_def)

lemma state2_enthalpy_eq_Inr:
  "state2_enthalpy h3 Q m = Inr h2 \<longleftrightarrow> m \<noteq> 0 \<and> h2 = h3 - Q / m"
  by (auto simp: state2_enthalpy_def and_then_eq_Inr py_div_eq_Inr)

lemmas rec_defs = flows.defs heat.defs pre_hx.defs globals.defs

lemmas cell_defs = cell5_def cell7_def cell9_def cell10_def cell12_def cell14_def
  state2_enthalpy_def py_div_def fluid_def oxidizer_def

subsection \<open>What a cell that returns has computed\<close>

lemma cell7_Inr:
  "cell7 p f = Inr g \<Longrightarrow>
     mm_O2 p \<noteq> 0 \<and> mDot_Tot g = mDot_Tot f \<and>
     Q_out g = (mDot_O2 p / mm_O2 p / 3) * Q_combustion p \<and>
     Q_inWall g = Q_out g * 0.05 \<and> Q_inWall_J g = Q_inWall g * 1000"
  by (auto simp: cell7_def and_then_eq_Inr py_div_eq_Inr Let_def rec_defs mult.commute)

lemma cell10_Inr:
  "cell10 P p g = Inr g' \<Longrightarrow>
     mDot_E p \<noteq> 0 \<and>
     mDot_Tot g' = mDot_Tot g \<and> Q_out g' = Q_out g \<and> Q_inWall g' = Q_inWall g \<and>
     Q_inWall_J g' = Q_inWall_J g \<and>
     P ''Hmass'' ''P'' (p3_Pa p) ''Q'' (x3 p) fluid = Inr (h3_JperKg g') \<and>
     P ''T'' ''P'' (p3_Pa p) ''Q'' (x3 p) fluid = Inr (t3_K g') \<and>
     h2_JperKg g' = h3_JperKg g' - Q_inWall_J g / mDot_E p \<and>
     P ''S'' ''P'' (p3_Pa p) ''Hmass'' (h2_JperKg g') fluid = Inr (s2_JperKgK g') \<and>
     P ''T'' ''P'' (p3_Pa p) ''H'' (h2_JperKg g') fluid = Inr (t2_K g')"
  by (auto simp: cell10_def and_then_eq_Inr state2_enthalpy_eq_Inr rec_defs)

lemma cell12_Inr:
  "cell12 P p g = Inr g' \<Longrightarrow>
     mDot_E p \<noteq> 0 \<and> mDot_O2 p \<noteq> 0 \<and>
     mDot_Tot g' = mDot_Tot g \<and> Q_out g' = Q_out g \<and> Q_inWall g' = Q_inWall g \<and>
     Q_inWall_J g' = Q_inWall_J g \<and> h3_JperKg g' = h3_JperKg g \<and> t3_K g' = t3_K g \<and>
     h2_JperKg g' = h2_JperKg g \<and> s2_JperKgK g' = s2_JperKgK g \<and> t2_K g' = t2_K g \<and>
     P ''T'' ''P'' (p1_Pa p) ''S'' (s2_JperKgK g) fluid = Inr (t1_K g') \<and>
     P ''H'' ''P'' (p1_Pa p) ''S'' (s2_JperKgK g) fluid = Inr (h1_JperKg g') \<and>
     work_EPump g' = (1 / mDot_E p) * (h2_JperKg g - h1_JperKg g') \<and>
     P ''H'' ''P'' (p3_Pa p) ''Q'' 0 oxidizer = Inr (h2_O2_JperKg g') \<and>
     P ''S'' ''P'' (p3_Pa p) ''Q'' 0 oxidizer = Inr (s2_O2_JperKgK g') \<and>
     P ''H'' ''P'' (p1_Pa p) ''S'' (s2_O2_JperKgK g') oxidizer = Inr (h1_O2_JperKg g') \<and>
     P ''T'' ''P'' (p1_Pa p) ''S'' (s2_O2_JperKgK g') oxidizer = Inr (T1_O2_K g') \<and>
     work_OPump g' = (1 / mDot_O2 p) * (h2_O2_JperKg g' - h1_O2_JperKg g')"
  by (auto simp: cell12_def and_then_eq_Inr py_div_eq_Inr Let_def rec_defs)

lemma cell14_Inr:
  "cell14 P p g = Inr g' \<Longrightarrow>
     mDot_E p \<noteq> 0 \<and>
     mDot_Tot g' = mDot_Tot g \<and> Q_out g' = Q_out g \<and> Q_inWall g' = Q_out g * 0.5 \<and>
     Q_inWall_J g' = Q_inWall g' * 1000 \<and> h3_JperKg g' = h3_JperKg g \<and> t3_K g' = t3_K g \<and>
     h2_JperKg g' = h3_JperKg g - (Q_inWall_J g' * 0.05) / mDot_E p \<and>
     P ''S'' ''P'' (p3_Pa p) ''Hmass'' (h2_JperKg g') fluid = Inr (s2_JperKgK g') \<and>
     P ''T'' ''P'' (p3_Pa p) ''H'' (h2_JperKg g') fluid = Inr (t2_K g') \<and>
     P ''T'' ''P'' (p1_Pa p) ''S'' (s2_JperKgK g') fluid = Inr (t1_K g') \<and>
     P ''H'' ''P'' (p1_Pa p) ''S'' (s2_JperKgK g') fluid = Inr (h1_JperKg g') \<and>
     work_EPump g' = (1 / mDot_E p) * (h2_JperKg g' - h1_JperKg g') \<and>
     h2_O2_JperKg g' = h2_O2_JperKg g \<and> s2_O2_JperKgK g' = s2_O2_JperKgK g \<and>
     h1_O2_JperKg g' = h1_O2_JperKg g \<and> T1_O2_K g' = T1_O2_K g \<and>
     work_OPump g' = work_OPump g"
  by (auto simp: cell14_def and_then_eq_Inr state2_enthalpy_eq_Inr py_div_eq_Inr Let_def)

lemma cell16_Inr:
  "cell16 P p g = Inr t \<Longrightarrow>
     mDot_Tot g \<noteq> 0 \<and>
     h1_gas t = (h3_JperKg g * mDot_E p + h2_O2_JperKg g * mDot_O2 p) / mDot_Tot g \<and>
     h2_gas t = h1_gas t + (Q_out g * 1000 * 0.95) / mDot_Tot g \<and>
     P ''T'' ''P'' 101325 ''T'' (973 * 0.8) ''CO2'' = Inr (h3_gas t) \<and>
     V t = pow_half (2 * (h2_gas t - h3_gas t)) \<and>
     M t = num_div (V t) 343 \<and>
     Thrust_N t = num_mult (mDot_Tot g) (V t)"
  by (auto simp: cell16_def and_then_eq_Inr py_div_eq_Inr Let_def)

lemma run_baseline_Inr:
  "run_baseline P p = Inr g \<Longrightarrow>
     \<exists>g7 g10. cell7 p (cell5 p) = Inr g7 \<and> cell10 P p g7 = Inr g10 \<and> cell12 P p g10 = Inr g"
  by (auto simp: run_baseline_def and_then_eq_Inr)

lemma run_improved_Inr:
  "run_improved P p = Inr g' \<Longrightarrow> \<exists>g. run_baseline P p = Inr g \<and> cell14 P p g = Inr g'"
  by (auto simp: run_improved_def and_then_eq_Inr)

lemma thrust_improved_Inr:
  "thrust_improved P p = Inr t \<Longrightarrow> \<exists>g. run_improved P p = Inr g \<and> cell16 P p g = Inr t"
  by (auto simp: thrust_improved_def and_then_eq_Inr)

lemma run_baseline_heat:
  "run_baseline P p = Inr g \<Longrightarrow>
     mm_O2 p \<noteq> 0 \<and> mDot_Tot g = mDot_E p + mDot_O2 p \<and>
     Q_out g = (mDot_O2 p / mm_O2 p / 3) * Q_combustion p \<and>
     Q_inWall g = Q_out g * 0.05 \<and> Q_inWall_J g = Q_inWall g * 1000"
proof -
  assume "run_baseline P p = Inr g"
  then obtain g7 g10 where c7: "cell7 p (cell5 p) = Inr g7"
    and c10: "cell10 P p g7 = Inr g10" and c12: "cell12 P p g10 = Inr g"
    using run_baseline_Inr by blast
  show ?thesis
    using cell7_Inr [OF c7] cell10_Inr [OF c10] cell12_Inr [OF c12]
    by (simp add: cell5_def)
qed

lemma run_improved_mDot_Tot:
  "run_improved P p = Inr g \<Longrightarrow> mDot_Tot g = mDot_E p + mDot_O2 p"
proof -
  assume "run_improved P p = Inr g"
  then obtain g0 where b: "run_baseline P p = Inr g0" and c14: "cell14 P p g0 = Inr g"
    using run_improved_Inr by blast
  show ?thesis
    using run_baseline_heat [OF b] cell14_Inr [OF c14] by simp
qed

subsection \<open>Python numbers as complex numbers\<close>

lemma as_complex_pow_half: "as_complex (pow_half x) = csqrt (complex_of_real x)"
  by (simp add: pow_half_def complex_eq_iff)

lemma as_complex_num_mult:
  "as_complex (num_mult m v) = complex_of_real m * as_complex v"
  by (cases v) simp_all

subsection \<open>The runs on the synthetic table\<close>

lemma toy_baseline: "run_baseline toy_PropsSI notebook = Inr toy_globals"
  by (simp add: run_baseline_def cell_defs notebook_def toy_PropsSI_def toy_globals_def rec_defs)

lemma toy_improved: "run_improved toy_PropsSI notebook = Inr toy_globals_improved"
  by (simp add: run_improved_def toy_baseline)
    (simp add: cell_defs notebook_def toy_PropsSI_def toy_globals_def toy_globals_improved_def)

lemma toy_thrust_improved: "thrust_improved toy_PropsSI notebook = Inr toy_thrust"
  by (simp add: thrust_improved_def toy_improved)
    (simp add: cell16_def py_div_def toy_PropsSI_def notebook_def pow_half_def
      toy_globals_improved_def toy_thrust_def)

lemma cold_thrust_improved: "thrust_improved cold_PropsSI notebook = Inr cold_thrust"
  by (simp add: thrust_improved_def run_improved_def run_baseline_def cell_defs cell16_def
      notebook_def cold_PropsSI_def toy_PropsSI_def pow_half_def rec_defs cold_thrust_def
      complex_eq_iff)

subsection \<open>Lookups that always answer; runs that raise\<close>

lemma answers_allD:
  assumes "answers_all P"
  shows "\<exists>r. P out n1 v1 n2 v2 fl = Inr r"
proof -
  from assms have "\<not> raises (P out n1 v1 n2 v2 fl)"
    by (simp add: answers_all_def)
  then show ?thesis
    by (cases "P out n1 v1 n2 v2 fl") (simp_all add: raises_def)
qed

lemma answers_all_toy: "answers_all toy_PropsSI"
  by (simp add: answers_all_def raises_def toy_PropsSI_def)

lemma echoes_inputs_toy: "echoes_inputs toy_PropsSI"
  by (auto simp: echoes_inputs_def toy_PropsSI_def split: if_splits)

lemma raises_Inr [simp]: "\<not> raises (Inr x)"
  by (simp add: raises_def)

lemma raises_Inl [simp]: "raises (Inl e)"
  by (simp add: raises_def)

lemma raises_py_div [simp]: "raises (py_div a b) \<longleftrightarrow> b = 0"
  by (simp add: py_div_def)

lemma answers_all_as_fun:
  assumes "answers_all P"
  obtains F where "P = (\<lambda>out n1 v1 n2 v2 fl. Inr (F out n1 v1 n2 v2 fl))"
proof -
  have "\<forall>out n1 v1 n2 v2 fl. \<exists>r. P out n1 v1 n2 v2 fl = Inr r"
    using assms answers_allD by blast
  then obtain F where "\<forall>out n1 v1 n2 v2 fl. P out n1 v1 n2 v2 fl = Inr (F out n1 v1 n2 v2 fl)"
    by metis
  then have "P = (\<lambda>out n1 v1 n2 v2 fl. Inr (F out n1 v1 n2 v2 fl))"
    by (intro ext) simp
  then show ?thesis ..
qed

lemma raises_thrust_improved:
  assumes "answers_all P"
  shows "raises (thrust_improved P p) \<longleftrightarrow>
     mm_O2 p = 0 \<or> mDot_E p = 0 \<or> mDot_O2 p = 0 \<or> mDot_E p + mDot_O2 p = 0"
proof -
  from assms obtain F where P: "P = (\<lambda>out n1 v1 n2 v2 fl. Inr (F out n1 v1 n2 v2 fl))"
    by (rule answers_all_as_fun)
  show ?thesis
    unfolding P
    by (simp add: thrust_improved_def run_improved_def run_baseline_def cell_defs cell16_def
        Let_def rec_defs)
qed

lemma lookup_before_flow_checks:
  "mm_O2 p \<noteq> 0 \<Longrightarrow> run_baseline failing_PropsSI p = Inl ValueError"
  by (simp add: run_baseline_def cell7_def cell9_def py_div_def failing_PropsSI_def Let_def)

lemma zero_fuel_flow:
  assumes "answers_all P" "mm_O2 p \<noteq> 0" "mDot_E p = 0"
  shows "run_baseline P p = Inl ZeroDivisionError"
proof -
  from assms obtain F where P: "P = (\<lambda>out n1 v1 n2 v2 fl. Inr (F out n1 v1 n2 v2 fl))"
    using answers_all_as_fun by blast
  show ?thesis
    unfolding P using assms(2,3)
    by (simp add: run_baseline_def cell_defs Let_def rec_defs)
qed

section \<open>The claims\<close>

text \<open>
  C1. Energy balance of the state back-computation. The state 2 (pre-heat-exchanger)
  enthalpy plus the heat absorbed per unit mass is the state 3 (injector) enthalpy:
  for the expression \<open>h3 - Q / mDot\<close> with \<open>Q = f * Q_total\<close> for any fraction \<open>f\<close>, which
  returns whenever the mass flow rate is not zero; in the baseline run, where the heat
  absorbed is \<open>Q_inWall_J\<close>; and in the improved run, where the heat the fuel absorbs is
  \<open>Q_inWall_J * 0.05\<close>. Over the reals the balance is exact.
\<close>

theorem energy_balance:
  "(m \<noteq> 0 \<longrightarrow> state2_enthalpy h3 (f * Q) m = Inr (h3 - f * Q / m)) \<and>
   (state2_enthalpy h3 (f * Q) m = Inr h2 \<longrightarrow> h2 + f * Q / m = h3) \<and>
   (run_baseline P p = Inr g \<longrightarrow>
      h2_JperKg g + Q_inWall_J g / mDot_E p = h3_JperKg g) \<and>
   (run_improved P p = Inr g' \<longrightarrow>
      h2_JperKg g' + (Q_inWall_J g' * 0.05) / mDot_E p = h3_JperKg g')"
proof (intro conjI impI)
  assume "m \<noteq> 0"
  then show "state2_enthalpy h3 (f * Q) m = Inr (h3 - f * Q / m)"
    by (simp add: state2_enthalpy_eq_Inr)
next
  assume "state2_enthalpy h3 (f * Q) m = Inr h2"
  then show "h2 + f * Q / m = h3"
    by (simp add: state2_enthalpy_eq_Inr)
next
  assume "run_baseline P p = Inr g"
  then obtain g7 g10 where c10: "cell10 P p g7 = Inr g10" and c12: "cell12 P p g10 = Inr g"
    using run_baseline_Inr by blast
  from cell10_Inr [OF c10] cell12_Inr [OF c12]
  show "h2_JperKg g + Q_inWall_J g / mDot_E p = h3_JperKg g"
    by simp
next
  assume "run_improved P p = Inr g'"
  then obtain g where c14: "cell14 P p g = Inr g'"
    using run_improved_Inr by blast
  from cell14_Inr [OF c14]
  show "h2_JperKg g' + (Q_inWall_J g' * 0.05) / mDot_E p = h3_JperKg g'"
    by simp
qed

theorem energy_balance_witness:
  "(0.125 :: real) \<noteq> 0 \<and>
   state2_enthalpy 250000 (0.05 * 1757812.5) 0.125 = Inr (- 453125) \<and>
   (- 453125 :: real) + 0.05 * 1757812.5 / 0.125 = 250000 \<and>
   run_baseline toy_PropsSI notebook = Inr toy_globals \<and>
   h2_JperKg toy_globals + Q_inWall_J toy_globals / mDot_E notebook = h3_JperKg toy_globals \<and>
   run_improved toy_PropsSI notebook = Inr toy_globals_improved \<and>
   h2_JperKg toy_globals_improved + (Q_inWall_J toy_globals_improved * 0.05) / mDot_E notebook
     = h3_JperKg toy_globals_improved"
  using energy_balance [of "0.125" 250000 "0.05" "1757812.5" "- 453125"
      toy_PropsSI notebook toy_globals toy_globals_improved]
    toy_baseline toy_improved
  by simp

text \<open>
  C2. In the improved scenario the wall heat is first computed as 0.5 of the total
  combustion heat, and the enthalpy drop applied at state 2 is that heat times 0.05 over
  the fuel mass flow rate: \<open>h3 - h2 = 0.5 * 0.05 * (Q_out * 1000) / mDot_E\<close>, where
  \<open>Q_out * 1000\<close> is the total combustion heat in J/s.
\<close>

theorem improved_enthalpy_drop:
  "run_improved P p = Inr g \<Longrightarrow>
     Q_out g = (mDot_O2 p / mm_O2 p / 3) * Q_combustion p \<and>
     Q_inWall g = Q_out g * 0.5 \<and>
     Q_inWall_J g = Q_inWall g * 1000 \<and>
     h2_JperKg g = h3_JperKg g - (Q_inWall_J g * 0.05) / mDot_E p \<and>
     h3_JperKg g - h2_JperKg g = 0.5 * 0.05 * (Q_out g * 1000) / mDot_E p"
proof -
  assume "run_improved P p = Inr g"
  then obtain g0 where b: "run_baseline P p = Inr g0" and c14: "cell14 P p g0 = Inr g"
    using run_improved_Inr by blast
  have q: "Q_out g = (mDot_O2 p / mm_O2 p / 3) * Q_combustion p"
    using run_baseline_heat [OF b] cell14_Inr [OF c14] by simp
  from cell14_Inr [OF c14] q show ?thesis
    by simp
qed

theorem improved_enthalpy_drop_witness:
  "run_improved toy_PropsSI notebook = Inr toy_globals_improved \<and>
   Q_out toy_globals_improved = (mDot_O2 notebook / mm_O2 notebook / 3) * Q_combustion notebook \<and>
   Q_inWall toy_globals_improved = Q_out toy_globals_improved * 0.5 \<and>
   h3_JperKg toy_globals_improved - h2_JperKg toy_globals_improved
     = 0.5 * 0.05 * (Q_out toy_globals_improved * 1000) / mDot_E notebook \<and>
   h3_JperKg toy_globals_improved - h2_JperKg toy_globals_improved = 351562.5"
  using improved_enthalpy_drop [OF toy_improved] toy_improved
  by (simp add: toy_globals_improved_def notebook_def)

text \<open>
  C3. The thrust model, as the notebook runs it (cell 16 after cell 14). The mixed exhaust
  enthalpy \<open>h1_gas\<close> is the mass-flow-weighted mean of the injector enthalpies; \<open>h2_gas\<close>
  adds 0.95 of the combustion heat over the total mass flow; \<open>h3_gas\<close> is the value the
  lookup for the exhaust returns; the velocity is the square root of
  \<open>2 * (h2_gas - h3_gas)\<close> (a float when that is not negative, the principal complex root
  otherwise) and the thrust is the total mass flow rate times the velocity, with no
  pressure term.
\<close>

theorem thrust_model:
  "run_improved P p = Inr g \<Longrightarrow> thrust_improved P p = Inr t \<Longrightarrow>
     mDot_Tot g = mDot_E p + mDot_O2 p \<and>
     h1_gas t = (h3_JperKg g * mDot_E p + h2_O2_JperKg g * mDot_O2 p) / mDot_Tot g \<and>
     h2_gas t = h1_gas t + (0.95 * (Q_out g * 1000)) / mDot_Tot g \<and>
     P ''T'' ''P'' 101325 ''T'' (973 * 0.8) ''CO2'' = Inr (h3_gas t) \<and>
     as_complex (V t) = csqrt (complex_of_real (2 * (h2_gas t - h3_gas t))) \<and>
     (h3_gas t \<le> h2_gas t \<longrightarrow> V t = PyFloat (sqrt (2 * (h2_gas t - h3_gas t)))) \<and>
     Thrust_N t = num_mult (mDot_Tot g) (V t) \<and>
     as_complex (Thrust_N t) = complex_of_real (mDot_Tot g) * as_complex (V t)"
proof -
  assume r: "run_improved P p = Inr g" and t: "thrust_improved P p = Inr t"
  from r t have c16: "cell16 P p g = Inr t"
    by (simp add: thrust_improved_def)
  note f = cell16_Inr [OF c16]
  have v: "V t = pow_half (2 * (h2_gas t - h3_gas t))"
    using f by simp
  have "as_complex (V t) = csqrt (complex_of_real (2 * (h2_gas t - h3_gas t)))"
    unfolding v by (rule as_complex_pow_half)
  moreover have "h3_gas t \<le> h2_gas t \<longrightarrow> V t = PyFloat (sqrt (2 * (h2_gas t - h3_gas t)))"
    unfolding v by (simp add: pow_half_def)
  moreover have "as_complex (Thrust_N t) = complex_of_real (mDot_Tot g) * as_complex (V t)"
    using f by (simp only: as_complex_num_mult)
  ultimately show ?thesis
    using f run_improved_mDot_Tot [OF r] by (simp add: mult.commute)
qed

theorem thrust_model_witness:
  "run_improved toy_PropsSI notebook = Inr toy_globals_improved \<and>
   thrust_improved toy_PropsSI notebook = Inr toy_thrust \<and>
   mDot_Tot toy_globals_improved = mDot_E notebook + mDot_O2 notebook \<and>
   h2_gas toy_thrust = h1_gas toy_thrust
     + (0.95 * (Q_out toy_globals_improved * 1000)) / mDot_Tot toy_globals_improved \<and>
   h3_gas toy_thrust \<le> h2_gas toy_thrust \<and>
   V toy_thrust = PyFloat (sqrt (2 * (h2_gas toy_thrust - h3_gas toy_thrust))) \<and>
   Thrust_N toy_thrust = num_mult (mDot_Tot toy_globals_improved) (V toy_thrust)"
proof -
  have le: "h3_gas toy_thrust \<le> h2_gas toy_thrust"
    by (simp add: toy_thrust_def)
  from thrust_model [OF toy_improved toy_thrust_improved] le toy_improved toy_thrust_improved
  show ?thesis by simp
qed

text \<open>
  C4. Isentropic pump. After the baseline run and after the improved run, the tank state of
  each stream (temperature and enthalpy) is the lookup at the tank pressure and the entropy
  of that stream's pre-heat-exchanger state: \<open>s2_JperKgK\<close> for the fuel, \<open>s2_O2_JperKgK\<close> for
  the oxidizer. The notebook has no variable for the tank entropy; it is the entropy the
  tank state is looked up at, and a lookup that returns a requested input as given reports
  exactly that value for it.
\<close>

theorem isentropic_tank_lookup:
  "run_baseline P p = Inr g \<or> run_improved P p = Inr g \<Longrightarrow>
     P ''T'' ''P'' (p1_Pa p) ''S'' (s2_JperKgK g) fluid = Inr (t1_K g) \<and>
     P ''H'' ''P'' (p1_Pa p) ''S'' (s2_JperKgK g) fluid = Inr (h1_JperKg g) \<and>
     P ''T'' ''P'' (p1_Pa p) ''S'' (s2_O2_JperKgK g) oxidizer = Inr (T1_O2_K g) \<and>
     P ''H'' ''P'' (p1_Pa p) ''S'' (s2_O2_JperKgK g) oxidizer = Inr (h1_O2_JperKg g) \<and>
     (echoes_inputs P \<and> P ''S'' ''P'' (p1_Pa p) ''S'' (s2_JperKgK g) fluid = Inr s1 \<longrightarrow>
        s1 = s2_JperKgK g) \<and>
     (echoes_inputs P \<and> P ''S'' ''P'' (p1_Pa p) ''S'' (s2_O2_JperKgK g) oxidizer = Inr s1_O2 \<longrightarrow>
        s1_O2 = s2_O2_JperKgK g)"
proof -
  have echo: "s = v" if "echoes_inputs P \<and> P ''S'' ''P'' q ''S'' v fl = Inr s" for s v q fl
    using that unfolding echoes_inputs_def by blast
  have base: "P ''T'' ''P'' (p1_Pa p) ''S'' (s2_JperKgK g) fluid = Inr (t1_K g) \<and>
     P ''H'' ''P'' (p1_Pa p) ''S'' (s2_JperKgK g) fluid = Inr (h1_JperKg g) \<and>
     P ''T'' ''P'' (p1_Pa p) ''S'' (s2_O2_JperKgK g) oxidizer = Inr (T1_O2_K g) \<and>
     P ''H'' ''P'' (p1_Pa p) ''S'' (s2_O2_JperKgK g) oxidizer = Inr (h1_O2_JperKg g)"
    if "run_baseline P p = Inr g" for g
  proof -
    from that obtain g10 where c12: "cell12 P p g10 = Inr g"
      using run_baseline_Inr by blast
    from cell12_Inr [OF c12] show ?thesis by simp
  qed
  assume "run_baseline P p = Inr g \<or> run_improved P p = Inr g"
  then show ?thesis
  proof
    assume "run_baseline P p = Inr g"
    from base [OF this] echo show ?thesis by blast
  next
    assume "run_improved P p = Inr g"
    then obtain g0 where b: "run_baseline P p = Inr g0" and c14: "cell14 P p g0 = Inr g"
      using run_improved_Inr by blast
    from base [OF b] cell14_Inr [OF c14]
    have "P ''T'' ''P'' (p1_Pa p) ''S'' (s2_JperKgK g) fluid = Inr (t1_K g) \<and>
      P ''H'' ''P'' (p1_Pa p) ''S'' (s2_JperKgK g) fluid = Inr (h1_JperKg g) \<and>
      P ''T'' ''P'' (p1_Pa p) ''S'' (s2_O2_JperKgK g) oxidizer = Inr (T1_O2_K g) \<and>
      P ''H'' ''P'' (p1_Pa p) ''S'' (s2_O2_JperKgK g) oxidizer = Inr (h1_O2_JperKg g)"
      by simp
    with echo show ?thesis by blast
  qed
qed

theorem isentropic_tank_lookup_witness:
  "run_baseline toy_PropsSI notebook = Inr toy_globals \<and>
   toy_PropsSI ''T'' ''P'' (p1_Pa notebook) ''S'' (s2_JperKgK toy_globals) fluid
     = Inr (t1_K toy_globals) \<and>
   toy_PropsSI ''H'' ''P'' (p1_Pa notebook) ''S'' (s2_O2_JperKgK toy_globals) oxidizer
     = Inr (h1_O2_JperKg toy_globals) \<and>
   run_improved toy_PropsSI notebook = Inr toy_globals_improved \<and>
   toy_PropsSI ''T'' ''P'' (p1_Pa notebook) ''S'' (s2_JperKgK toy_globals_improved) fluid
     = Inr (t1_K toy_globals_improved) \<and>
   toy_PropsSI ''H'' ''P'' (p1_Pa notebook) ''S'' (s2_JperKgK toy_globals_improved) fluid
     = Inr (h1_JperKg toy_globals_improved) \<and>
   s2_JperKgK toy_globals_improved \<noteq> s2_JperKgK toy_globals \<and>
   echoes_inputs toy_PropsSI \<and>
   toy_PropsSI ''S'' ''P'' (p1_Pa notebook) ''S'' (s2_JperKgK toy_globals_improved) fluid
     = Inr 3593.75 \<and>
   toy_PropsSI ''S'' ''P'' (p1_Pa notebook) ''S'' (s2_O2_JperKgK toy_globals_improved) oxidizer
     = Inr 5000 \<and>
   s2_JperKgK toy_globals_improved = 3593.75 \<and> s2_O2_JperKgK toy_globals_improved = 5000"
proof -
  have b: "run_baseline toy_PropsSI notebook = Inr toy_globals
      \<or> run_improved toy_PropsSI notebook = Inr toy_globals"
    using toy_baseline by simp
  have i: "run_baseline toy_PropsSI notebook = Inr toy_globals_improved
      \<or> run_improved toy_PropsSI notebook = Inr toy_globals_improved"
    using toy_improved by simp
  have n: "s2_JperKgK toy_globals_improved \<noteq> s2_JperKgK toy_globals"
    by (simp add: toy_globals_def toy_globals_improved_def)
  have q: "toy_PropsSI ''S'' ''P'' (p1_Pa notebook) ''S'' (s2_JperKgK toy_globals_improved) fluid
      = Inr 3593.75"
    "toy_PropsSI ''S'' ''P'' (p1_Pa notebook) ''S'' (s2_O2_JperKgK toy_globals_improved) oxidizer
      = Inr 5000"
    by (simp_all add: toy_PropsSI_def toy_globals_improved_def)
  from isentropic_tank_lookup [OF b, of 0 0]
    isentropic_tank_lookup [OF i, of "3593.75" 5000]
    toy_baseline toy_improved echoes_inputs_toy n q
  show ?thesis by simp
qed

text \<open>
  C5. Pump work is the literal arithmetic \<open>(1 / mDot) * (h_exit - h_inlet)\<close>, exit the
  pre-heat-exchanger state and inlet the tank state: for the fuel pump after the baseline
  run and after the improved run, and for the oxidizer pump, which the improved scenario
  leaves as the baseline computed it.
\<close>

theorem pump_work_formula:
  "run_baseline P p = Inr g \<or> run_improved P p = Inr g \<Longrightarrow>
     work_EPump g = (1 / mDot_E p) * (h2_JperKg g - h1_JperKg g) \<and>
     work_OPump g = (1 / mDot_O2 p) * (h2_O2_JperKg g - h1_O2_JperKg g)"
proof -
  have base: "work_EPump g = (1 / mDot_E p) * (h2_JperKg g - h1_JperKg g) \<and>
     work_OPump g = (1 / mDot_O2 p) * (h2_O2_JperKg g - h1_O2_JperKg g)"
    if "run_baseline P p = Inr g" for g
  proof -
    from that obtain g10 where c12: "cell12 P p g10 = Inr g"
      using run_baseline_Inr by blast
    from cell12_Inr [OF c12] show ?thesis by simp
  qed
  assume "run_baseline P p = Inr g \<or> run_improved P p = Inr g"
  then show ?thesis
  proof
    assume "run_baseline P p = Inr g"
    then show ?thesis by (rule base)
  next
    assume "run_improved P p = Inr g"
    then obtain g0 where b: "run_baseline P p = Inr g0" and c14: "cell14 P p g0 = Inr g"
      using run_improved_Inr by blast
    from base [OF b] cell14_Inr [OF c14] show ?thesis by simp
  qed
qed

theorem pump_work_formula_witness:
  "run_baseline toy_PropsSI notebook = Inr toy_globals \<and>
   work_EPump toy_globals
     = (1 / mDot_E notebook) * (h2_JperKg toy_globals - h1_JperKg toy_globals) \<and>
   work_OPump toy_globals
     = (1 / mDot_O2 notebook) * (h2_O2_JperKg toy_globals - h1_O2_JperKg toy_globals) \<and>
   run_improved toy_PropsSI notebook = Inr toy_globals_improved \<and>
   work_EPump toy_globals_improved
     = (1 / mDot_E notebook) * (h2_JperKg toy_globals_improved - h1_JperKg toy_globals_improved) \<and>
   work_EPump toy_globals_improved = 8000"
proof -
  have b: "run_baseline toy_PropsSI notebook = Inr toy_globals
      \<or> run_improved toy_PropsSI notebook = Inr toy_globals"
    using toy_baseline by simp
  have i: "run_baseline toy_PropsSI notebook = Inr toy_globals_improved
      \<or> run_improved toy_PropsSI notebook = Inr toy_globals_improved"
    using toy_improved by simp
  have "work_EPump toy_globals_improved = 8000"
    by (simp add: toy_globals_improved_def)
  with pump_work_formula [OF b] pump_work_formula [OF i] toy_baseline toy_improved
  show ?thesis by simp
qed

text \<open>
  C6. The combustion heat release rate is the oxidizer molar flow rate over 3 times
  \<open>Q_combustion\<close>, which the notebook sets to 1350 kJ/mol, and the baseline wall heat is
  that rate times 0.05 (cell 7 raises only for a zero molar mass). For the notebook's
  0.125 kg/s and 0.032 kg/mol the wall heat is 87.890625 kJ/s, that is 87890.625 J/s.
\<close>

theorem combustion_heat:
  "cell7 p f =
     (if mm_O2 p = 0 then Inl ZeroDivisionError
      else Inr \<lparr>mDot_Tot = mDot_Tot f,
                Q_out = ((mDot_O2 p / mm_O2 p) / 3) * Q_combustion p,
                Q_inWall = ((mDot_O2 p / mm_O2 p) / 3) * Q_combustion p * 0.05,
                Q_inWall_J = ((mDot_O2 p / mm_O2 p) / 3) * Q_combustion p * 0.05 * 1000\<rparr>) \<and>
   (run_baseline P p = Inr g \<longrightarrow>
      Q_out g = ((mDot_O2 p / mm_O2 p) / 3) * Q_combustion p \<and>
      Q_inWall g = Q_out g * 0.05 \<and> Q_inWall_J g = Q_inWall g * 1000) \<and>
   Q_combustion notebook = 1350 \<and> mDot_O2 notebook = 0.125 \<and> mm_O2 notebook = 0.032 \<and>
   cell7 notebook (cell5 notebook) =
     Inr \<lparr>mDot_Tot = 0.25, Q_out = 1757.8125, Q_inWall = 87.890625,
          Q_inWall_J = 87890.625\<rparr> \<and>
   \<bar>87.890625 - 87.89\<bar> < (0.005 :: real) \<and> \<bar>87890.625 - 87890\<bar> < (1 :: real)"
proof (intro conjI impI)
  show "cell7 p f =
     (if mm_O2 p = 0 then Inl ZeroDivisionError
      else Inr \<lparr>mDot_Tot = mDot_Tot f,
                Q_out = ((mDot_O2 p / mm_O2 p) / 3) * Q_combustion p,
                Q_inWall = ((mDot_O2 p / mm_O2 p) / 3) * Q_combustion p * 0.05,
                Q_inWall_J = ((mDot_O2 p / mm_O2 p) / 3) * Q_combustion p * 0.05 * 1000\<rparr>)"
    by (simp add: cell7_def py_div_def Let_def rec_defs mult.commute)
  show "cell7 notebook (cell5 notebook) =
     Inr \<lparr>mDot_Tot = 0.25, Q_out = 1757.8125, Q_inWall = 87.890625,
          Q_inWall_J = 87890.625\<rparr>"
    by (simp add: cell7_def cell5_def py_div_def notebook_def rec_defs)
next
  assume b: "run_baseline P p = Inr g"
  from run_baseline_heat [OF b]
  show "Q_out g = ((mDot_O2 p / mm_O2 p) / 3) * Q_combustion p"
    and "Q_inWall g = Q_out g * 0.05" and "Q_inWall_J g = Q_inWall g * 1000"
    by simp_all
qed (simp_all add: notebook_def)

theorem combustion_heat_witness:
  "run_baseline toy_PropsSI notebook = Inr toy_globals \<and>
   Q_out toy_globals = ((mDot_O2 notebook / mm_O2 notebook) / 3) * 1350 \<and>
   Q_inWall toy_globals = Q_out toy_globals * 0.05 \<and>
   Q_inWall toy_globals = 87.890625 \<and> Q_inWall_J toy_globals = 87890.625"
proof -
  from combustion_heat [of notebook "cell5 notebook" toy_PropsSI toy_globals] toy_baseline
  have "Q_out toy_globals = ((mDot_O2 notebook / mm_O2 notebook) / 3) * Q_combustion notebook
      \<and> Q_inWall toy_globals = Q_out toy_globals * 0.05"
    by blast
  then show ?thesis
    using toy_baseline by (simp add: notebook_def toy_globals_def)
qed

text \<open>
  C7. The thrust cell gives the same result (velocity, thrust, or the same error) on the
  global variables of the baseline scenario as on those of the improved scenario: cell 14
  changes none of the variables cell 16 reads.
\<close>

theorem thrust_scenario_independent:
  "run_improved P p = Inr g' \<Longrightarrow> thrust_improved P p = thrust_baseline P p"
proof -
  assume i: "run_improved P p = Inr g'"
  then obtain g where b: "run_baseline P p = Inr g" and c14: "cell14 P p g = Inr g'"
    using run_improved_Inr by blast
  from cell14_Inr [OF c14] have "cell16 P p g' = cell16 P p g"
    by (simp add: cell16_def)
  with i b show ?thesis
    by (simp add: thrust_improved_def thrust_baseline_def)
qed

theorem thrust_scenario_independent_witness:
  "run_improved toy_PropsSI notebook = Inr toy_globals_improved \<and>
   thrust_improved toy_PropsSI notebook = thrust_baseline toy_PropsSI notebook \<and>
   thrust_baseline toy_PropsSI notebook = Inr toy_thrust"
  using thrust_scenario_independent [OF toy_improved] toy_improved toy_thrust_improved
  by simp

text \<open>
  C8, as the program behaves. Cell 16 raises nothing on account of the sign of
  \<open>h2_gas - h3_gas\<close>: once the lookup answers and the total mass flow rate is not zero it
  returns. When \<open>h3_gas \<le> h2_gas\<close> and the total mass flow rate is not negative, the thrust
  is a non-negative float; when \<open>h2_gas < h3_gas\<close>, the velocity is the complex number
  \<open>i * sqrt (2 * (h3_gas - h2_gas))\<close> and the thrust is the total mass flow rate times it.
\<close>

theorem thrust_sign_or_complex:
  "(answers_all P \<and> run_improved P p = Inr g \<and> mDot_E p + mDot_O2 p \<noteq> 0
      \<longrightarrow> \<not> raises (thrust_improved P p)) \<and>
   (thrust_improved P p = Inr t \<longrightarrow>
      (h3_gas t \<le> h2_gas t \<and> 0 \<le> mDot_E p + mDot_O2 p \<longrightarrow>
         Thrust_N t = PyFloat ((mDot_E p + mDot_O2 p) * sqrt (2 * (h2_gas t - h3_gas t))) \<and>
         0 \<le> (mDot_E p + mDot_O2 p) * sqrt (2 * (h2_gas t - h3_gas t))) \<and>
      (h2_gas t < h3_gas t \<longrightarrow>
         V t = PyComplex (Complex 0 (sqrt (2 * (h3_gas t - h2_gas t)))) \<and>
         Thrust_N t = PyComplex (Complex 0
           ((mDot_E p + mDot_O2 p) * sqrt (2 * (h3_gas t - h2_gas t))))))"
proof (intro conjI impI)
  assume a: "answers_all P \<and> run_improved P p = Inr g \<and> mDot_E p + mDot_O2 p \<noteq> 0"
  then obtain r where r: "P ''T'' ''P'' 101325 ''T'' (973 * 0.8) ''CO2'' = Inr r"
    using answers_allD by blast
  from a have i: "run_improved P p = Inr g"
    by simp
  from a run_improved_mDot_Tot [OF i] have m: "mDot_Tot g \<noteq> 0"
    by simp
  from i r m show "\<not> raises (thrust_improved P p)"
    by (simp add: thrust_improved_def cell16_def py_div_def Let_def)
next
  assume t: "thrust_improved P p = Inr t"
  then obtain g where r: "run_improved P p = Inr g" and c16: "cell16 P p g = Inr t"
    using thrust_improved_Inr by blast
  note f = cell16_Inr [OF c16]
  have v: "V t = pow_half (2 * (h2_gas t - h3_gas t))"
    and th: "Thrust_N t = num_mult (mDot_E p + mDot_O2 p) (V t)"
    using f run_improved_mDot_Tot [OF r] by simp_all
  {
    assume "h3_gas t \<le> h2_gas t \<and> 0 \<le> mDot_E p + mDot_O2 p"
    then show "Thrust_N t = PyFloat ((mDot_E p + mDot_O2 p) * sqrt (2 * (h2_gas t - h3_gas t)))"
      and "0 \<le> (mDot_E p + mDot_O2 p) * sqrt (2 * (h2_gas t - h3_gas t))"
      unfolding th v by (simp_all add: pow_half_def)
  }
  {
    assume "h2_gas t < h3_gas t"
    then show "V t = PyComplex (Complex 0 (sqrt (2 * (h3_gas t - h2_gas t))))"
      and "Thrust_N t = PyComplex (Complex 0
           ((mDot_E p + mDot_O2 p) * sqrt (2 * (h3_gas t - h2_gas t))))"
      unfolding th v by (simp_all add: pow_half_def complex_eq_iff)
  }
qed

theorem thrust_sign_or_complex_witness:
  "answers_all toy_PropsSI \<and> run_improved toy_PropsSI notebook = Inr toy_globals_improved \<and>
   mDot_E notebook + mDot_O2 notebook \<noteq> 0 \<and>
   \<not> raises (thrust_improved toy_PropsSI notebook) \<and>
   thrust_improved toy_PropsSI notebook = Inr toy_thrust \<and>
   h3_gas toy_thrust \<le> h2_gas toy_thrust \<and> 0 \<le> mDot_E notebook + mDot_O2 notebook \<and>
   Thrust_N toy_thrust = PyFloat ((mDot_E notebook + mDot_O2 notebook)
     * sqrt (2 * (h2_gas toy_thrust - h3_gas toy_thrust))) \<and>
   thrust_improved cold_PropsSI notebook = Inr cold_thrust \<and>
   h2_gas cold_thrust < h3_gas cold_thrust \<and>
   V cold_thrust = PyComplex (Complex 0 (sqrt (2 * (h3_gas cold_thrust - h2_gas cold_thrust))))"
proof -
  have n: "mDot_E notebook + mDot_O2 notebook \<noteq> 0" "0 \<le> mDot_E notebook + mDot_O2 notebook"
    by (simp_all add: notebook_def)
  have o: "h3_gas toy_thrust \<le> h2_gas toy_thrust" "h2_gas cold_thrust < h3_gas cold_thrust"
    by (simp_all add: toy_thrust_def cold_thrust_def)
  from thrust_sign_or_complex [of toy_PropsSI notebook toy_globals_improved toy_thrust]
    thrust_sign_or_complex [of cold_PropsSI notebook toy_globals_improved cold_thrust]
    answers_all_toy toy_improved toy_thrust_improved cold_thrust_improved n o
  show ?thesis by simp
qed

text \<open>
  C8, as stated, fails: with the notebook's literals and a property table whose
  saturated-liquid enthalpy is -6678911.1 J/kg, the pre-expansion enthalpy 776.4 is below
  the post-expansion value 778.4, and the run returns the velocity \<open>2i\<close> without raising.
\<close>

theorem silent_complex_velocity:
  "thrust_improved cold_PropsSI notebook =
     Inr \<lparr>h1_gas = - 6678911.1, h2_gas = 776.4, h3_gas = 778.4,
          V = PyComplex (Complex 0 2), M = PyComplex (Complex 0 (2 / 343)),
          Thrust_N = PyComplex (Complex 0 0.5)\<rparr> \<and>
   \<not> raises (thrust_improved cold_PropsSI notebook)"
  using cold_thrust_improved by (simp add: cold_thrust_def)

text \<open>
  C9, as the program behaves. No parameter is validated. With a lookup that always
  answers, the whole notebook raises exactly when one of its divisors (\<open>mm_O2\<close>, \<open>mDot_E\<close>,
  \<open>mDot_O2\<close>, \<open>mDot_E + mDot_O2\<close>) is zero, so negative flow rates run to the end. The
  lookups come before any failure that depends on the flow rates: with a lookup that
  always fails the run raises the lookup's ValueError whatever the flow rates are, and a
  zero fuel flow rate raises ZeroDivisionError, in cell 10, only when the lookups before it
  have answered.
\<close>

theorem no_parameter_validation:
  "(answers_all P \<longrightarrow>
      (raises (thrust_improved P p) \<longleftrightarrow>
         mm_O2 p = 0 \<or> mDot_E p = 0 \<or> mDot_O2 p = 0 \<or> mDot_E p + mDot_O2 p = 0)) \<and>
   (mm_O2 p \<noteq> 0 \<longrightarrow> run_baseline failing_PropsSI p = Inl ValueError) \<and>
   (answers_all P \<and> mm_O2 p \<noteq> 0 \<and> mDot_E p = 0 \<longrightarrow>
      run_baseline P p = Inl ZeroDivisionError)"
  using raises_thrust_improved [of P p] lookup_before_flow_checks [of p] zero_fuel_flow [of P p]
  by blast

theorem no_parameter_validation_witness:
  "answers_all toy_PropsSI \<and>
   \<not> raises (thrust_improved toy_PropsSI (notebook\<lparr>mDot_E := - 0.05\<rparr>)) \<and>
   mm_O2 (notebook\<lparr>mDot_E := 0\<rparr>) \<noteq> 0 \<and> mDot_E (notebook\<lparr>mDot_E := 0\<rparr>) = 0 \<and>
   run_baseline failing_PropsSI (notebook\<lparr>mDot_E := 0\<rparr>) = Inl ValueError \<and>
   run_baseline toy_PropsSI (notebook\<lparr>mDot_E := 0\<rparr>) = Inl ZeroDivisionError"
proof -
  have n: "mm_O2 (notebook\<lparr>mDot_E := 0\<rparr>) \<noteq> 0" "mDot_E (notebook\<lparr>mDot_E := 0\<rparr>) = 0"
    "\<not> (mm_O2 (notebook\<lparr>mDot_E := - 0.05\<rparr>) = 0 \<or> mDot_E (notebook\<lparr>mDot_E := - 0.05\<rparr>) = 0
        \<or> mDot_O2 (notebook\<lparr>mDot_E := - 0.05\<rparr>) = 0
        \<or> mDot_E (notebook\<lparr>mDot_E := - 0.05\<rparr>) + mDot_O2 (notebook\<lparr>mDot_E := - 0.05\<rparr>) = 0)"
    by (simp_all add: notebook_def)
  from no_parameter_validation [of toy_PropsSI "notebook\<lparr>mDot_E := - 0.05\<rparr>"]
    no_parameter_validation [of toy_PropsSI "notebook\<lparr>mDot_E := 0\<rparr>"]
    answers_all_toy n
  show ?thesis by blast
qed

text \<open>
  C9, as stated, fails: with the fuel mass flow rate set to -0.05 kg/s the notebook runs to
  the end on the synthetic table and raises nothing; with the fuel mass flow rate set to 0
  and a lookup that fails, the error raised is the lookup's.
\<close>

theorem negative_flow_runs_unchecked:
  "\<not> raises (thrust_improved toy_PropsSI (notebook\<lparr>mDot_E := - 0.05\<rparr>)) \<and>
   run_improved toy_PropsSI (notebook\<lparr>mDot_E := - 0.05\<rparr>) =
     Inr \<lparr>mDot_Tot = 0.075, Q_out = 1757.8125, Q_inWall = 878.90625,
          Q_inWall_J = 878906.25, h3_JperKg = 250000, t3_K = 500, h2_JperKg = 1128906.25,
          s2_JperKgK = 8515.625, t2_K = 851.5625, t1_K = 851.5625, h1_JperKg = 1127906.25,
          work_EPump = - 20000, h2_O2_JperKg = 250000, s2_O2_JperKgK = 5000,
          h1_O2_JperKg = 249000, T1_O2_K = 500, work_OPump = 8000\<rparr> \<and>
   run_baseline failing_PropsSI (notebook\<lparr>mDot_E := 0\<rparr>) = Inl ValueError"
proof -
  have "\<not> raises (thrust_improved toy_PropsSI (notebook\<lparr>mDot_E := - 0.05\<rparr>))"
    by (simp add: thrust_improved_def run_improved_def run_baseline_def cell_defs cell16_def
        notebook_def toy_PropsSI_def Let_def rec_defs)
  moreover have "run_improved toy_PropsSI (notebook\<lparr>mDot_E := - 0.05\<rparr>) =
     Inr \<lparr>mDot_Tot = 0.075, Q_out = 1757.8125, Q_inWall = 878.90625,
          Q_inWall_J = 878906.25, h3_JperKg = 250000, t3_K = 500, h2_JperKg = 1128906.25,
          s2_JperKgK = 8515.625, t2_K = 851.5625, t1_K = 851.5625, h1_JperKg = 1127906.25,
          work_EPump = - 20000, h2_O2_JperKg = 250000, s2_O2_JperKgK = 5000,
          h1_O2_JperKg = 249000, T1_O2_K = 500, work_OPump = 8000\<rparr>"
    by (simp add: run_improved_def run_baseline_def cell_defs
        notebook_def toy_PropsSI_def Let_def rec_defs)
  moreover have "run_baseline failing_PropsSI (notebook\<lparr>mDot_E := 0\<rparr>) = Inl ValueError"
    by (simp add: run_baseline_def cell7_def cell9_def py_div_def failing_PropsSI_def
        notebook_def Let_def)
  ultimately show ?thesis by simp
qed

text \<open>
  C10. The exhaust lookup asks for \<open>T\<close> at pressure 101325 and temperature \<open>973 * 0.8\<close>. For
  a lookup that returns a requested input as given, \<open>h3_gas\<close> is therefore the temperature
  778.4 itself, and the velocity is the square root of \<open>2 * (h2_gas - 778.4)\<close>.
\<close>

theorem exhaust_value_is_temperature:
  "echoes_inputs P \<Longrightarrow> thrust_improved P p = Inr t \<Longrightarrow>
     P ''T'' ''P'' 101325 ''T'' (973 * 0.8) ''CO2'' = Inr (h3_gas t) \<and>
     h3_gas t = 973 * 0.8 \<and> h3_gas t = 778.4 \<and>
     V t = pow_half (2 * (h2_gas t - 778.4)) \<and>
     as_complex (V t) = csqrt (complex_of_real (2 * (h2_gas t - 778.4)))"
proof -
  assume e: "echoes_inputs P" and t: "thrust_improved P p = Inr t"
  from t obtain g where c16: "cell16 P p g = Inr t"
    using thrust_improved_Inr by blast
  note f = cell16_Inr [OF c16]
  have q: "P ''T'' ''P'' 101325 ''T'' (973 * 0.8) ''CO2'' = Inr (h3_gas t)"
    using f by simp
  with e have h: "h3_gas t = 973 * 0.8"
    unfolding echoes_inputs_def by blast
  then have h': "h3_gas t = 778.4"
    by simp
  have v: "V t = pow_half (2 * (h2_gas t - 778.4))"
    using f h' by simp
  have "as_complex (V t) = csqrt (complex_of_real (2 * (h2_gas t - 778.4)))"
    unfolding v by (rule as_complex_pow_half)
  with q h h' v show ?thesis by blast
qed

theorem exhaust_value_is_temperature_witness:
  "echoes_inputs toy_PropsSI \<and> thrust_improved toy_PropsSI notebook = Inr toy_thrust \<and>
   h3_gas toy_thrust = 778.4 \<and>
   V toy_thrust = pow_half (2 * (h2_gas toy_thrust - 778.4))"
  using exhaust_value_is_temperature [OF echoes_inputs_toy toy_thrust_improved]
    echoes_inputs_toy toy_thrust_improved
  by simp

end
